theory Spec2Isabelle
  imports Main "HOL-Library.Word"
begin

unbundle bit_operations_syntax

section \<open>Strings and JavaScript values\<close>

text \<open>
  A JavaScript string is modelled by its UTF-8 bytes (the bytes that reach the logfile).
  \<open>String.prototype.length\<close> counts UTF-16 code units, so it is computed from the bytes:
  every byte that is not a continuation byte starts a code point, and a four-byte sequence
  is a surrogate pair.
\<close>

definition utf16_length :: "string \<Rightarrow> nat" where
  "utf16_length s =
     length (filter (\<lambda>c. \<not> ((0x80::nat) \<le> of_char c \<and> of_char c < (0xC0::nat))) s)
     + length (filter (\<lambda>c. (0xF0::nat) \<le> of_char c) s)"

definition repeat :: "string \<Rightarrow> nat \<Rightarrow> string" where
  "repeat s n = concat (replicate n s)"

fun join_strings :: "string \<Rightarrow> string list \<Rightarrow> string" where
  "join_strings sep [] = []"
| "join_strings sep [x] = x"
| "join_strings sep (x # y # ys) = x @ sep @ join_strings sep (y # ys)"

text \<open>
  \<open>String.prototype.split\<close> with a non-empty separator (here always \<open>os.EOL\<close>):
  \<open>acc\<close> holds the piece read so far.
\<close>

function split_acc :: "string \<Rightarrow> string \<Rightarrow> string \<Rightarrow> string list" where
  "split_acc sep acc s =
     (if s = [] then [acc]
      else if sep \<noteq> [] \<and> take (length sep) s = sep
        then acc # split_acc sep [] (drop (length sep) s)
      else split_acc sep (acc @ [hd s]) (tl s))"
  by pat_completeness auto
termination
  by (relation "measure (\<lambda>(sep, acc, s). length s)") auto

declare split_acc.simps [simp del]

definition split :: "string \<Rightarrow> string \<Rightarrow> string list" where
  "split sep s = split_acc sep [] s"

text \<open>\<open>s.replace(new RegExp(sep, 'gi'), by)\<close> for a separator without regex metacharacters.\<close>

definition replace_all :: "string \<Rightarrow> string \<Rightarrow> string \<Rightarrow> string" where
  "replace_all sep by_str s = join_strings by_str (split sep s)"

definition digit_char :: "nat \<Rightarrow> char" where
  "digit_char n = char_of (48 + n)"

function string_of_nat :: "nat \<Rightarrow> string" where
  "string_of_nat n =
     (if n < 10 then [digit_char n] else string_of_nat (n div 10) @ [digit_char (n mod 10)])"
  by pat_completeness auto
termination
  by (relation "measure (\<lambda>n. n)") auto

declare string_of_nat.simps [simp del]

definition string_of_int :: "int \<Rightarrow> string" where
  "string_of_int i = (if i < 0 then CHR ''-'' # string_of_nat (nat (- i)) else string_of_nat (nat i))"

text \<open>
  The values a log method can receive. Numbers are the 32-bit signed integers, which
  JavaScript prints in decimal (floating point, and the exponent notation of large
  numbers, lie outside the model). An object other than an array carries the two texts
  the program can obtain from it: the one \<open>util.inspect\<close> renders, and the one its own
  \<open>toString\<close> returns (\<open>[object Object]\<close> for a plain object).
\<close>

datatype jsvalue =
    JString string
  | JNumber "32 word"
  | JBoolean bool
  | JNull
  | JUndefined
  | JArray "jsvalue list"
  | JObject string string

text \<open>
  \<open>String(v)\<close>, as a template literal and \<open>util.format('%s', v)\<close> compute it. An array
  is joined with commas, where \<open>null\<close> and \<open>undefined\<close> elements contribute nothing; an
  object gives what its own \<open>toString\<close> returns.
\<close>

fun ToString :: "jsvalue \<Rightarrow> string" where
  "ToString (JString s) = s"
| "ToString (JNumber n) = string_of_int (sint n)"
| "ToString (JBoolean b) = (if b then ''true'' else ''false'')"
| "ToString JNull = ''null''"
| "ToString JUndefined = ''undefined''"
| "ToString (JArray xs) =
     join_strings '',''
       (map (\<lambda>v. if v = JNull \<or> v = JUndefined then [] else ToString v) xs)"
| "ToString (JObject inspected own_string) = own_string"

text \<open>\<open>Array.prototype.join\<close>\<close>

definition Array_join :: "string \<Rightarrow> jsvalue list \<Rightarrow> string" where
  "Array_join sep xs =
     join_strings sep (map (\<lambda>v. if v = JNull \<or> v = JUndefined then [] else ToString v) xs)"

text \<open>Truthiness, as \<open>!this.title\<close> tests it.\<close>

fun truthy :: "jsvalue \<Rightarrow> bool" where
  "truthy (JString s) = (s \<noteq> [])"
| "truthy (JNumber n) = (n \<noteq> 0)"
| "truthy (JBoolean b) = b"
| "truthy JNull = False"
| "truthy JUndefined = False"
| "truthy (JArray xs) = True"
| "truthy (JObject inspected own_string) = True"

text \<open>\<open>_.isObjectLike\<close> and \<open>_.isArray\<close>\<close>

fun isObjectLike :: "jsvalue \<Rightarrow> bool" where
  "isObjectLike (JArray xs) = True"
| "isObjectLike (JObject inspected own_string) = True"
| "isObjectLike v = False"

text \<open>
  \<open>Array.prototype.indexOf\<close>: the first index holding the element, \<open>-1\<close> when there is
  none. \<open>i\<close> is the index of the head of the list still to be searched.
\<close>

fun indexOf_from :: "'a list \<Rightarrow> 'a \<Rightarrow> int \<Rightarrow> int" where
  "indexOf_from [] x i = - 1"
| "indexOf_from (y # ys) x i = (if y = x then i else indexOf_from ys x (i + 1))"

definition indexOf :: "'a list \<Rightarrow> 'a \<Rightarrow> int" where
  "indexOf xs x = indexOf_from xs x 0"

text \<open>
  \<open>Map.prototype.set\<close> on an insertion-ordered map: an existing key keeps its position and
  takes the new value, a new key is appended.
\<close>

fun Map_set :: "'k \<Rightarrow> 'v \<Rightarrow> ('k \<times> 'v) list \<Rightarrow> ('k \<times> 'v) list" where
  "Map_set k v [] = [(k, v)]"
| "Map_set k v (p # ps) = (if fst p = k then (k, v) # ps else p # Map_set k v ps)"

section \<open>Data model\<close>

text \<open>\<open>LoggerOptions\<close>: a complete configuration.\<close>

record LoggerOptions =
  write_flag :: bool
  timestamp :: bool
  namespace :: string
  logfile :: string

text \<open>
  An options object as a caller passes it: every property may be absent
  (\<open>undefined\<close>).
\<close>

record PartialOptions =
  opt_write :: "bool option"
  opt_timestamp :: "bool option"
  opt_namespace :: "string option"
  opt_logfile :: "string option"

datatype loglevel = Debug | Log | Info | Warn | Error

datatype js_error = TypeError

text \<open>What \<open>readPkgUp.sync\<close> returns: the manifest's path and its \<open>name\<close> field.\<close>

record pkg =
  pkg_path :: string
  pkg_name :: string

text \<open>
  The constants the module computes when it is loaded, and its collaborators
  (the manifest locator, \<open>path\<close>, \<open>os.EOL\<close>, \<open>_.startCase\<close>, the wall clock read by
  \<open>getCurrentTimestamp\<close>, and whether \<open>fs.mkdirp\<close> fails on a directory).
\<close>

record env =
  thisModuleFilename :: string
  toplevelModuleDirectory :: string
  toplevelModulePackageName :: string
  logfilePath :: string
  contextType :: string
  isDebug :: bool
  isNolog :: bool
  EOL :: string
  readPkgUp_sync :: "string \<Rightarrow> pkg option"
  path_basename :: "string \<Rightarrow> string"
  path_dirname :: "string \<Rightarrow> string"
  startCase :: "string \<Rightarrow> string"
  timestamp_at :: "nat \<Rightarrow> string"
  mkdirp_error :: "string \<Rightarrow> bool"

text \<open>
  What \<open>console.log\<close> and \<open>console.error\<close> receive. The styling applied by \<open>chalk\<close> is
  kept as a tag, and the elapsed-time stamp (a floating-point clock difference) is kept
  only as the flag saying whether one is printed.
\<close>

datatype modifier = NoModifier | Underline | Bold

datatype console_arg =
    Plain string
  | Val jsvalue
  | Chalk string modifier string
  | ElapsedStamp bool

datatype console_entry = ConsoleLog "console_arg list" | ConsoleError "string list"

text \<open>
  The state of the process: the registry \<open>global[thisModulePackageName].configurations\<close>
  (an absent registry is the empty one: \<open>createLogger\<close> creates it empty before anything
  reads it), the contents of every file, the console, and the number of clock reads so far.
\<close>

record world =
  configurations :: "(string \<times> LoggerOptions) list"
  files :: "string \<Rightarrow> string"
  console :: "console_entry list"
  clock :: nat

text \<open>
  The state of one loaded instance of the module: \<open>module.exports.configuration\<close>.
  Every \<open>require\<close> loads a fresh instance, because the module removes itself from
  \<open>require.cache\<close>.
\<close>

record module_state =
  configuration :: LoggerOptions

text \<open>
  A \<open>LoggerMessage\<close>. \<open>msg_timestamp\<close> says whether the message carries an elapsed-time
  stamp; the stamp itself, a difference of two readings of a floating-point clock, is not
  part of the model.
\<close>

record LoggerMessage =
  loglevel :: string
  emoji :: string
  rgb :: string
  chalkstyle :: string
  msg_namespace :: string
  thread :: int
  title :: jsvalue
  body :: string
  msg_timestamp :: bool

section \<open>Configuration\<close>

definition defaultLoggerOptions :: "env \<Rightarrow> LoggerOptions" where
  "defaultLoggerOptions e =
     \<lparr> write_flag = False, timestamp = True, namespace = [], logfile = logfilePath e \<rparr>"

text \<open>
  \<open>_.defaultsDeep(options, source)\<close> on the four properties: a property of \<open>options\<close>
  that is \<open>undefined\<close> takes the value of \<open>source\<close>, any other is kept.
\<close>

definition defaultsDeep :: "PartialOptions \<Rightarrow> LoggerOptions \<Rightarrow> LoggerOptions" where
  "defaultsDeep options source =
     \<lparr> write_flag = (case opt_write options of None \<Rightarrow> write_flag source | Some v \<Rightarrow> v),
       timestamp = (case opt_timestamp options of None \<Rightarrow> timestamp source | Some v \<Rightarrow> v),
       namespace = (case opt_namespace options of None \<Rightarrow> namespace source | Some v \<Rightarrow> v),
       logfile = (case opt_logfile options of None \<Rightarrow> logfile source | Some v \<Rightarrow> v) \<rparr>"

definition getConfiguration :: "module_state \<Rightarrow> LoggerOptions" where
  "getConfiguration m = configuration m"

text \<open>
  \<open>setConfiguration\<close> makes \<open>module.exports.configuration\<close> the merged options object,
  a new object: the registry keeps the object that \<open>createLogger\<close> stored, unchanged.
\<close>

definition setConfiguration :: "PartialOptions \<Rightarrow> module_state \<Rightarrow> module_state" where
  "setConfiguration options m = m\<lparr> configuration := defaultsDeep options (configuration m) \<rparr>"

section \<open>Formatting a message\<close>

fun loglevel_name :: "loglevel \<Rightarrow> string" where
  "loglevel_name Debug = ''debug''"
| "loglevel_name Log = ''log''"
| "loglevel_name Info = ''info''"
| "loglevel_name Warn = ''warn''"
| "loglevel_name Error = ''error''"

text \<open>\<open>_.toUpper\<close> on the five level names.\<close>

fun toUpper :: "loglevel \<Rightarrow> string" where
  "toUpper Debug = ''DEBUG''"
| "toUpper Log = ''LOG''"
| "toUpper Info = ''INFO''"
| "toUpper Warn = ''WARN''"
| "toUpper Error = ''ERROR''"

fun colorDictionary :: "loglevel \<Rightarrow> string" where
  "colorDictionary Debug = ''cyan''"
| "colorDictionary Log = ''cyan''"
| "colorDictionary Info = ''magenta''"
| "colorDictionary Warn = ''yellow''"
| "colorDictionary Error = ''red''"

fun loglevelRgbDictionary :: "loglevel \<Rightarrow> 32 word list" where
  "loglevelRgbDictionary Debug = [100, 100, 100]"
| "loglevelRgbDictionary Log = [0, 128, 255]"
| "loglevelRgbDictionary Info = [255, 100, 150]"
| "loglevelRgbDictionary Warn = [200, 100, 30]"
| "loglevelRgbDictionary Error = [230, 70, 50]"

text \<open>The emoji, as their UTF-8 bytes; the ones of info and warn end with a space.\<close>

fun loglevelEmojiDictionary :: "loglevel \<Rightarrow> string" where
  "loglevelEmojiDictionary Debug = [CHR 0xF0, CHR 0x9F, CHR 0x94, CHR 0xA7]"
| "loglevelEmojiDictionary Log = [CHR 0xF0, CHR 0x9F, CHR 0x93, CHR 0x9D]"
| "loglevelEmojiDictionary Info = [CHR 0xE2, CHR 0x84, CHR 0xB9, CHR 0xEF, CHR 0xB8, CHR 0x8F, CHR 0x20]"
| "loglevelEmojiDictionary Warn = [CHR 0xE2, CHR 0x9A, CHR 0xA0, CHR 0xEF, CHR 0xB8, CHR 0x8F, CHR 0x20]"
| "loglevelEmojiDictionary Error = [CHR 0xF0, CHR 0x9F, CHR 0x9A, CHR 0xA8]"

definition isBrowserContext :: "env \<Rightarrow> bool" where
  "isBrowserContext e = (contextType e = ''browser'')"

text \<open>
  The text that replaces an array, and the one that replaces any other object; \<open>n\<close> is
  the indent.
\<close>

definition format_array :: "env \<Rightarrow> nat \<Rightarrow> jsvalue list \<Rightarrow> string" where
  "format_array e n xs =
     EOL e @ repeat '' '' n @ ''['' @ EOL e @ repeat '' '' (n + 2)
     @ Array_join ('','' @ EOL e @ repeat '' '' (n + 2)) xs
     @ EOL e @ repeat '' '' n @ '']''"

definition format_object :: "env \<Rightarrow> nat \<Rightarrow> string \<Rightarrow> string" where
  "format_object e n inspected =
     replace_all (EOL e) (EOL e @ repeat '' '' n) (EOL e @ inspected)"

fun format_entity :: "env \<Rightarrow> nat \<Rightarrow> jsvalue \<Rightarrow> string" where
  "format_entity e n (JArray xs) = format_array e n xs"
| "format_entity e n (JObject inspected own_string) = format_object e n inspected"
| "format_entity e n v = ToString v"

text \<open>
  \<open>message[index - 1] = `${message[index - 1]}`\<close>: the element before an object becomes
  its string. Before the first element there is none (the assignment then sets the
  property \<open>-1\<close>, which no later step reads).
\<close>

definition stringify_last :: "jsvalue list \<Rightarrow> jsvalue list" where
  "stringify_last visited =
     (if visited = [] then [] else butlast visited @ [JString (ToString (last visited))])"

text \<open>
  The loop over the message: \<open>visited\<close> holds the elements already passed, in their
  current state.
\<close>

fun format_entities :: "env \<Rightarrow> nat \<Rightarrow> jsvalue list \<Rightarrow> jsvalue list \<Rightarrow> jsvalue list" where
  "format_entities e n visited [] = visited"
| "format_entities e n visited (v # vs) =
     (if isObjectLike v
      then format_entities e n (stringify_last visited @ [JString (format_entity e n v)]) vs
      else format_entities e n (visited @ [v]) vs)"

text \<open>The column at which the text of a message starts, for a namespace.\<close>

definition indent :: "env \<Rightarrow> string \<Rightarrow> nat" where
  "indent e this_namespace =
     (if \<not> isBrowserContext e
      then utf16_length (''i ['' @ this_namespace @ ''] '')
      else utf16_length (''i  ['' @ this_namespace @ '']  ''))"

text \<open>The configurations of all instances, in the order of the registry, and their namespaces.\<close>

definition allConfigurations :: "world \<Rightarrow> LoggerOptions list" where
  "allConfigurations w = map snd (configurations w)"

definition namespacesList :: "world \<Rightarrow> string list" where
  "namespacesList w = map namespace (allConfigurations w)"

text \<open>
  The constructor of \<open>LoggerMessage\<close>. It reads the configuration of this instance and
  the registry. \<open>title\<close> starts out \<open>undefined\<close>.
\<close>

definition LoggerMessage_constructor ::
  "env \<Rightarrow> loglevel \<Rightarrow> jsvalue list \<Rightarrow> module_state \<Rightarrow> world \<Rightarrow> LoggerMessage" where
  "LoggerMessage_constructor e level message m w =
     (let this_configuration = configuration m;
          this_namespace = namespace this_configuration;
          namespaceIndex = indexOf (namespacesList w) this_namespace;
          this_thread = namespaceIndex AND 1;
          message1 = format_entities e (indent e this_namespace) [] message;
          title1 = (if length message1 > 1 then hd message1 else JUndefined);
          message2 = (if length message1 > 1 then tl message1 else message1);
          body1 = Array_join '' '' message2;
          title2 = (if \<not> truthy title1 then JString body1 else title1);
          body2 = (if title2 = JString body1 then [] else body1)
      in \<lparr> loglevel = toUpper level,
           emoji = loglevelEmojiDictionary level,
           rgb = Array_join '','' (map JNumber (loglevelRgbDictionary level)),
           chalkstyle = colorDictionary level,
           msg_namespace = this_namespace,
           thread = this_thread,
           title = title2,
           body = body2,
           msg_timestamp = timestamp this_configuration \<rparr>)"

section \<open>Writing to the logfile\<close>

text \<open>
  \<open>getCurrentTimestamp\<close> reads the wall clock: the \<open>n\<close>-th read of the process returns
  \<open>timestamp_at e n\<close>.
\<close>

definition getCurrentTimestamp :: "env \<Rightarrow> world \<Rightarrow> string \<times> world" where
  "getCurrentTimestamp e w = (timestamp_at e (clock w), w\<lparr> clock := clock w + 1 \<rparr>)"

text \<open>\<open>stream.write\<close> for every line of the message, on a stream that appends.\<close>

fun stream_write_lines :: "env \<Rightarrow> string \<Rightarrow> string list \<Rightarrow> world \<Rightarrow> world" where
  "stream_write_lines e file [] w = w"
| "stream_write_lines e file (line # lines) w =
     (let (ts, w1) = getCurrentTimestamp e w;
          w2 = w1\<lparr> files := (files w1)(file := files w1 file @ ''['' @ ts @ ''] '' @ line @ EOL e) \<rparr>
      in stream_write_lines e file lines w2)"

text \<open>
  \<open>writeMessageToFile\<close>. The code appends from the callback of \<open>fs.mkdirp\<close>, on a
  stream of its own for every call: the lines are in the file some time after the call has
  returned, and the platform orders the appends of different calls. The model runs the
  callback at once, which is one of these orders (the one in which the calls are made).
  Whether a call appends at all, and what it appends, is decided before the callback and
  does not depend on this.
\<close>

definition writeMessageToFile :: "env \<Rightarrow> string \<Rightarrow> module_state \<Rightarrow> world \<Rightarrow> world" where
  "writeMessageToFile e message m w =
     (let this_configuration = configuration m;
          file = logfile this_configuration
      in if \<not> write_flag this_configuration \<or> isNolog e then w
         else if mkdirp_error e (path_dirname e file)
           then w\<lparr> console := console w @ [ConsoleError [''logger'', ''appendMessageToFile'', ''fs.mkdirp'']] \<rparr>
         else stream_write_lines e file (split (EOL e) message) w)"

definition writeHeaderToFile :: "env \<Rightarrow> module_state \<Rightarrow> world \<Rightarrow> world" where
  "writeHeaderToFile e m w =
     (let (ts, w1) = getCurrentTimestamp e w
      in writeMessageToFile e
           (EOL e @ ''LOG STARTED ('' @ ts @ '')'' @ EOL e @ repeat [CHR 0xE2, CHR 0x96, CHR 0x94] 80)
           m w1)"

section \<open>Printing\<close>

text \<open>The line both printers hand to \<open>writeMessageToFile\<close>.\<close>

definition file_message :: "env \<Rightarrow> LoggerMessage \<Rightarrow> string" where
  "file_message e loggerMessage =
     ''['' @ loglevel loggerMessage @ ''] ['' @ startCase e (contextType e) @ ''] [''
     @ msg_namespace loggerMessage @ ''] '' @ ToString (title loggerMessage) @ '' ''
     @ body loggerMessage"

definition browser_css :: "string \<Rightarrow> string \<Rightarrow> string \<Rightarrow> string \<Rightarrow> string" where
  "browser_css rgb_str bg fg weight =
     ''background-color: rgba('' @ rgb_str @ '', '' @ bg @ ''); color: rgba('' @ rgb_str @ '', ''
     @ fg @ ''); padding: 0 0px; font-weight: '' @ weight"

definition printToBrowserConsole ::
  "env \<Rightarrow> loglevel \<Rightarrow> jsvalue list \<Rightarrow> module_state \<Rightarrow> world \<Rightarrow> world" where
  "printToBrowserConsole e level message m w =
     (if length message = 0 then w
      else
        let loggerMessage = LoggerMessage_constructor e level message m w;
            w1 = w\<lparr> console := console w @ [ConsoleLog
                   [Plain ''%s %c %s | %c %c%s%c %c%s%c %s'',
                    Plain (emoji loggerMessage),
                    Plain (browser_css (rgb loggerMessage) ''0.2'' ''0.8'' ''normal''),
                    Plain (msg_namespace loggerMessage),
                    Plain [],
                    Plain (browser_css (rgb loggerMessage) ''0.0'' ''1.0'' ''bold''),
                    Val (title loggerMessage),
                    Plain [],
                    Plain (browser_css (rgb loggerMessage) ''0.1'' ''1.0'' ''normal''),
                    Plain (body loggerMessage),
                    Plain (browser_css (rgb loggerMessage) ''0.0'' ''0.5'' ''normal''),
                    ElapsedStamp (msg_timestamp loggerMessage)]] \<rparr>
        in writeMessageToFile e (file_message e loggerMessage) m w1)"

definition printToTty ::
  "env \<Rightarrow> loglevel \<Rightarrow> jsvalue list \<Rightarrow> module_state \<Rightarrow> world \<Rightarrow> world" where
  "printToTty e level message m w =
     (if length message = 0 then w
      else
        let loggerMessage = LoggerMessage_constructor e level message m w;
            w1 = w\<lparr> console := console w @ [ConsoleLog
                   [Plain (emoji loggerMessage),
                    (if thread loggerMessage \<noteq> 0
                     then Chalk (chalkstyle loggerMessage) NoModifier (msg_namespace loggerMessage)
                     else Chalk (chalkstyle loggerMessage) Underline (msg_namespace loggerMessage)),
                    Chalk (chalkstyle loggerMessage) Bold (ToString (title loggerMessage)),
                    Chalk (chalkstyle loggerMessage) NoModifier (body loggerMessage),
                    ElapsedStamp (msg_timestamp loggerMessage)]] \<rparr>
        in writeMessageToFile e (file_message e loggerMessage) m w1)"

definition printToAny ::
  "env \<Rightarrow> loglevel \<Rightarrow> jsvalue list \<Rightarrow> module_state \<Rightarrow> world \<Rightarrow> world" where
  "printToAny e level message m w =
     (if contextType e = ''browser'' then printToBrowserConsole e level message m w
      else printToTty e level message m w)"

section \<open>The logger instance\<close>

definition logger_debug :: "env \<Rightarrow> jsvalue list \<Rightarrow> module_state \<Rightarrow> world \<Rightarrow> world" where
  "logger_debug e arguments m w = (if isDebug e then printToAny e Debug arguments m w else w)"

definition logger_log :: "env \<Rightarrow> jsvalue list \<Rightarrow> module_state \<Rightarrow> world \<Rightarrow> world" where
  "logger_log e arguments m w = printToAny e Log arguments m w"

definition logger_info :: "env \<Rightarrow> jsvalue list \<Rightarrow> module_state \<Rightarrow> world \<Rightarrow> world" where
  "logger_info e arguments m w = printToAny e Info arguments m w"

definition logger_warn :: "env \<Rightarrow> jsvalue list \<Rightarrow> module_state \<Rightarrow> world \<Rightarrow> world" where
  "logger_warn e arguments m w = printToAny e Warn arguments m w"

definition logger_error :: "env \<Rightarrow> jsvalue list \<Rightarrow> module_state \<Rightarrow> world \<Rightarrow> world" where
  "logger_error e arguments m w = printToAny e Error arguments m w"

text \<open>The method of the instance that carries the name of a level.\<close>

fun log_method :: "loglevel \<Rightarrow> env \<Rightarrow> jsvalue list \<Rightarrow> module_state \<Rightarrow> world \<Rightarrow> world" where
  "log_method Debug = logger_debug"
| "log_method Log = logger_log"
| "log_method Info = logger_info"
| "log_method Warn = logger_warn"
| "log_method Error = logger_error"

text \<open>A sequence of calls of log methods on one instance.\<close>

fun log_calls :: "env \<Rightarrow> (loglevel \<times> jsvalue list) list \<Rightarrow> module_state \<Rightarrow> world \<Rightarrow> world" where
  "log_calls e [] m w = w"
| "log_calls e (c # cs) m w = log_calls e cs m (log_method (fst c) e (snd c) m w)"

section \<open>Creating a logger\<close>

definition ellipsis :: string where
  "ellipsis = [CHR 0xE2, CHR 0x80, CHR 0xA6]"

text \<open>
  The exported function. \<open>parent\<close> is \<open>module.parent.filename\<close>, absent when the
  module has no parent. \<open>readPkgUp.sync\<close> returns \<open>undefined\<close> when there is no manifest,
  and reading its \<open>path\<close> then throws. On success the function returns the state of the
  instance (whose methods the caller receives) and the new state of the process.

  The options are taken by value: every call receives an options object of its own (as
  the object literal of \<open>require('@bengennaria/logger')({ write: true })\<close> is), which nothing
  changes afterwards. In the code the configuration and the entry of the registry are the
  caller's object itself, so a caller that passes one object to two calls, or changes it
  later, changes the entries made from it; the model does not cover such callers. The
  general statements about threads below therefore take the registry as it is when a
  message is made, and the examples create every logger with an options object of its own.
\<close>

definition requiringModuleFilePath :: "env \<Rightarrow> string option \<Rightarrow> string" where
  "requiringModuleFilePath e parent =
     (case parent of
        None \<Rightarrow> thisModuleFilename e
      | Some f \<Rightarrow> if f \<noteq> [] then f else thisModuleFilename e)"

definition createLogger ::
  "env \<Rightarrow> string option \<Rightarrow> PartialOptions \<Rightarrow> world \<Rightarrow> js_error + (module_state \<times> world)" where
  "createLogger e parent options w =
     (let configuration0 = defaultsDeep options (defaultLoggerOptions e);
          requiringModuleFileName = path_basename e (requiringModuleFilePath e parent)
      in case readPkgUp_sync e (requiringModuleFilePath e parent) of
           None \<Rightarrow> Inl TypeError
         | Some found \<Rightarrow>
             let requiringModuleDirectory = path_dirname e (pkg_path found);
                 requiringModuleName = pkg_name found;
                 isLocalModule = (\<not> (requiringModuleDirectory \<noteq> toplevelModuleDirectory e));
                 configuration1 = configuration0\<lparr> namespace :=
                   toplevelModulePackageName e @ ''|'' @ ellipsis @ ''/'' @ requiringModuleFileName \<rparr>;
                 configuration2 =
                   (if \<not> isLocalModule
                    then configuration1\<lparr> namespace :=
                           toplevelModulePackageName e @ ''|'' @ requiringModuleName \<rparr>
                    else configuration1);
                 m = \<lparr> configuration = configuration2 \<rparr>;
                 w1 = (if length (configurations w) = 1 then writeHeaderToFile e m w else w);
                 w2 = w1\<lparr> configurations :=
                        Map_set (requiringModuleFilePath e parent) (configuration m) (configurations w1) \<rparr>
             in Inr (m, w2))"

section \<open>What the specification says\<close>

text \<open>
  The configuration of a new logger in the specification's words: the options merged onto
  the defaults, the caller's value winning for every property.
\<close>

definition spec_configuration :: "env \<Rightarrow> PartialOptions \<Rightarrow> LoggerOptions" where
  "spec_configuration e options =
     \<lparr> write_flag = (case opt_write options of Some v \<Rightarrow> v | None \<Rightarrow> False),
       timestamp = (case opt_timestamp options of Some v \<Rightarrow> v | None \<Rightarrow> True),
       namespace = (case opt_namespace options of Some v \<Rightarrow> v | None \<Rightarrow> []),
       logfile = (case opt_logfile options of Some v \<Rightarrow> v | None \<Rightarrow> logfilePath e) \<rparr>"

text \<open>
  Title and body in the specification's words, on the message as the loop over its elements
  leaves it: with more than one element the first is the title and the others, joined with
  single spaces, are the body; with one element it is the title and the body is empty; a
  body identical to the title is cleared.
\<close>

definition spec_title_body :: "jsvalue list \<Rightarrow> jsvalue \<times> string" where
  "spec_title_body message =
     (let title0 = (if length message > 1 then hd message
                    else if length message = 1 then hd message else JUndefined);
          body0 = (if length message > 1 then Array_join '' '' (tl message) else [])
      in (title0, if title0 = JString body0 then [] else body0))"

text \<open>
  The namespace in the specification's words: a module is local when the directory of its
  nearest enclosing manifest is the root directory of the application.
\<close>

definition spec_isLocal :: "env \<Rightarrow> pkg \<Rightarrow> bool" where
  "spec_isLocal e found = (path_dirname e (pkg_path found) = toplevelModuleDirectory e)"

definition spec_namespace :: "env \<Rightarrow> string \<Rightarrow> pkg \<Rightarrow> string" where
  "spec_namespace e file found =
     (if spec_isLocal e found
      then toplevelModulePackageName e @ ''|'' @ ellipsis @ ''/'' @ path_basename e file
      else toplevelModulePackageName e @ ''|'' @ pkg_name found)"

section \<open>An example process\<close>

text \<open>
  An application \<open>my-app\<close> in \<open>/app\<close> with two files of its own (of the same name) and a dependency \<open>dep\<close>
  with two files. \<open>example_basename\<close> and \<open>example_dirname\<close> do what \<open>path.basename\<close> and
  \<open>path.dirname\<close> do on these paths.
\<close>

definition example_basename :: "string \<Rightarrow> string" where
  "example_basename p = rev (takeWhile (\<lambda>c. c \<noteq> CHR ''/'') (rev p))"

definition example_dirname :: "string \<Rightarrow> string" where
  "example_dirname p = rev (tl (dropWhile (\<lambda>c. c \<noteq> CHR ''/'') (rev p)))"

definition example_readPkgUp :: "string \<Rightarrow> pkg option" where
  "example_readPkgUp p =
     (if p = ''/app/main.js'' \<or> p = ''/app/lib/main.js''
        then Some \<lparr> pkg_path = ''/app/package.json'', pkg_name = ''my-app'' \<rparr>
      else if p = ''/app/node_modules/dep/index.js'' \<or> p = ''/app/node_modules/dep/lib/a.js''
        then Some \<lparr> pkg_path = ''/app/node_modules/dep/package.json'', pkg_name = ''dep'' \<rparr>
      else None)"

definition example_env :: env where
  "example_env =
     \<lparr> thisModuleFilename = ''/app/node_modules/logger/index.js'',
       toplevelModuleDirectory = ''/app'',
       toplevelModulePackageName = ''my-app'',
       logfilePath = ''/logs/my-app.log'',
       contextType = ''renderer'',
       isDebug = False,
       isNolog = False,
       EOL = [CHR 0x0A],
       readPkgUp_sync = example_readPkgUp,
       path_basename = example_basename,
       path_dirname = example_dirname,
       startCase = (\<lambda>s. ''Renderer''),
       timestamp_at = (\<lambda>n. ''2020-01-01 00:00:00''),
       mkdirp_error = (\<lambda>d. False) \<rparr>"

text \<open>A process in which no logger has been created yet.\<close>

definition initial_world :: world where
  "initial_world = \<lparr> configurations = [], files = (\<lambda>f. []), console = [], clock = 0 \<rparr>"

definition no_options :: PartialOptions where
  "no_options =
     \<lparr> opt_write = None, opt_timestamp = None, opt_namespace = None, opt_logfile = None \<rparr>"

definition write_options :: PartialOptions where
  "write_options = no_options\<lparr> opt_write := Some True \<rparr>"

definition custom_namespace :: PartialOptions where
  "custom_namespace = no_options\<lparr> opt_namespace := Some ''custom'' \<rparr>"

text \<open>
  The file \<open>/app/main.js\<close> creates a logger that writes to the logfile, three times in a
  row.
\<close>

definition first_init :: "module_state \<times> world" where
  "first_init = projr (createLogger example_env (Some ''/app/main.js'') write_options initial_world)"

definition second_init :: "module_state \<times> world" where
  "second_init = projr (createLogger example_env (Some ''/app/main.js'') write_options (snd first_init))"

definition third_init :: "module_state \<times> world" where
  "third_init = projr (createLogger example_env (Some ''/app/main.js'') write_options (snd second_init))"

text \<open>
  Four files create a logger, one after the other: a file of the dependency, a file of the
  application, the other file of the dependency, the other file of the application.
\<close>

definition reg1 :: "module_state \<times> world" where
  "reg1 = projr (createLogger example_env (Some ''/app/node_modules/dep/index.js'') no_options
            initial_world)"

definition reg2 :: "module_state \<times> world" where
  "reg2 = projr (createLogger example_env (Some ''/app/main.js'') no_options (snd reg1))"

definition reg3 :: "module_state \<times> world" where
  "reg3 = projr (createLogger example_env (Some ''/app/node_modules/dep/lib/a.js'') no_options
            (snd reg2))"

definition reg4 :: "module_state \<times> world" where
  "reg4 = projr (createLogger example_env (Some ''/app/lib/main.js'') no_options (snd reg3))"

text \<open>The two files of the dependency create a logger, one after the other.\<close>

definition dep2 :: "module_state \<times> world" where
  "dep2 = projr (createLogger example_env (Some ''/app/node_modules/dep/lib/a.js'') no_options
            (snd reg1))"

text \<open>The file \<open>/app/main.js\<close> creates a logger and passes a namespace of its own.\<close>

definition custom_init :: "module_state \<times> world" where
  "custom_init = projr (createLogger example_env (Some ''/app/main.js'') custom_namespace
                   initial_world)"

text \<open>The other file of the application creates the first logger of a process.\<close>

definition local_init :: "module_state \<times> world" where
  "local_init = projr (createLogger example_env (Some ''/app/lib/main.js'') no_options
                  initial_world)"

text \<open>Two calls of log methods.\<close>

definition two_calls :: "(loglevel \<times> jsvalue list) list" where
  "two_calls = [(Log, [JString ''a'']), (Error, [JString ''b'', JNumber 1])]"

section \<open>Auxiliary facts\<close>

lemma and_one_mod_2: "(i::int) AND 1 = i mod 2"
  by (simp add: and_one_eq)

lemma indexOf_from_absent: "x \<notin> set xs \<Longrightarrow> indexOf_from xs x i = - 1"
  by (induction xs arbitrary: i) auto

lemma indexOf_from_first:
  "k < length xs \<Longrightarrow> xs ! k = x \<Longrightarrow> \<forall>j<k. xs ! j \<noteq> x \<Longrightarrow> indexOf_from xs x i = i + int k"
proof (induction xs arbitrary: i k)
  case Nil
  then show ?case by simp
next
  case (Cons y ys)
  show ?case
  proof (cases k)
    case 0
    with Cons.prems show ?thesis by simp
  next
    case (Suc k')
    from Cons.prems Suc have "y \<noteq> x" by auto
    moreover from Cons.prems Suc have "k' < length ys" "ys ! k' = x" "\<forall>j<k'. ys ! j \<noteq> x"
      by auto
    ultimately show ?thesis using Cons.IH [of k' "i + 1"] Suc by simp
  qed
qed

lemma indexOf_from_append:
  "x \<in> set xs \<Longrightarrow> indexOf_from (xs @ ys) x i = indexOf_from xs x i"
  by (induction xs arbitrary: i) auto

lemma first_occurrence_exists:
  "x \<in> set xs \<Longrightarrow> \<exists>k<length xs. xs ! k = x \<and> (\<forall>j<k. xs ! j \<noteq> x)"
proof (induction xs)
  case Nil
  then show ?case by simp
next
  case (Cons y ys)
  show ?case
  proof (cases "y = x")
    case True
    then have "(y # ys) ! 0 = x \<and> (\<forall>j<0. (y # ys) ! j \<noteq> x)" by simp
    then show ?thesis by blast
  next
    case False
    with Cons obtain k where k: "k < length ys" "ys ! k = x" "\<forall>j<k. ys ! j \<noteq> x" by auto
    have "\<forall>j<Suc k. (y # ys) ! j \<noteq> x"
    proof (intro allI impI)
      fix j assume "j < Suc k"
      then show "(y # ys) ! j \<noteq> x" using False k(3) by (cases j) auto
    qed
    with k show ?thesis by (intro exI [of _ "Suc k"]) simp
  qed
qed

lemma thread_eq:
  "thread (LoggerMessage_constructor e level message m w)
     = indexOf (namespacesList w) (namespace (configuration m)) AND 1"
  by (simp add: LoggerMessage_constructor_def Let_def)

lemma writeMessageToFile_gated:
  "\<not> write_flag (configuration m) \<or> isNolog e \<Longrightarrow> writeMessageToFile e message m w = w"
  by (auto simp: writeMessageToFile_def Let_def)

lemma files_printToAny_gated:
  "\<not> write_flag (configuration m) \<or> isNolog e \<Longrightarrow> files (printToAny e level message m w) = files w"
  by (simp add: printToAny_def printToTty_def printToBrowserConsole_def Let_def
      writeMessageToFile_gated)

lemma files_log_method_gated:
  "\<not> write_flag (configuration m) \<or> isNolog e \<Longrightarrow> files (log_method level e message m w) = files w"
  by (cases level)
    (simp_all add: logger_debug_def logger_log_def logger_info_def logger_warn_def
       logger_error_def files_printToAny_gated)

lemma configurations_stream_write_lines:
  "configurations (stream_write_lines e file lines w) = configurations w"
  by (induction lines arbitrary: w) (simp_all add: getCurrentTimestamp_def Let_def)

lemma configurations_writeMessageToFile:
  "configurations (writeMessageToFile e message m w) = configurations w"
  by (simp add: writeMessageToFile_def Let_def configurations_stream_write_lines)

lemma configurations_writeHeaderToFile:
  "configurations (writeHeaderToFile e m w) = configurations w"
  by (simp add: writeHeaderToFile_def getCurrentTimestamp_def Let_def
      configurations_writeMessageToFile)

lemma createLogger_None:
  "readPkgUp_sync e (requiringModuleFilePath e parent) = None \<Longrightarrow>
   createLogger e parent options w = Inl TypeError"
  by (simp add: createLogger_def Let_def)

lemma createLogger_Some:
  assumes "readPkgUp_sync e (requiringModuleFilePath e parent) = Some found"
  shows "\<exists>m w'. createLogger e parent options w = Inr (m, w')
    \<and> configuration m = (defaultsDeep options (defaultLoggerOptions e))
         \<lparr> namespace := spec_namespace e (requiringModuleFilePath e parent) found \<rparr>
    \<and> configurations w'
         = Map_set (requiringModuleFilePath e parent) (configuration m) (configurations w)"
  using assms
  by (simp add: createLogger_def Let_def spec_namespace_def spec_isLocal_def
      configurations_writeHeaderToFile)

lemma createLogger_Inr:
  assumes "createLogger e parent options w = Inr (m, w')"
  shows "\<exists>found. readPkgUp_sync e (requiringModuleFilePath e parent) = Some found
    \<and> configuration m = (defaultsDeep options (defaultLoggerOptions e))
         \<lparr> namespace := spec_namespace e (requiringModuleFilePath e parent) found \<rparr>
    \<and> configurations w'
         = Map_set (requiringModuleFilePath e parent) (configuration m) (configurations w)"
proof (cases "readPkgUp_sync e (requiringModuleFilePath e parent)")
  case None
  with assms show ?thesis by (simp add: createLogger_None)
next
  case (Some found)
  from createLogger_Some [OF Some, of options w] assms show ?thesis
    using Some by auto
qed

lemma Inr_projr: "\<not> isl x \<Longrightarrow> x = Inr (fst (projr x), snd (projr x))"
  by (cases x) simp_all

section \<open>The header of the logfile\<close>

text \<open>
  The first logger created in a process finds the registry empty and writes nothing. A
  logger created while the registry holds one configuration writes a header, if its
  \<open>write\<close> flag is on, no override is active and the directory can be made.
\<close>

lemma split_acc_not_Nil: "split_acc sep acc s \<noteq> []"
proof (induction sep acc s rule: split_acc.induct)
  case (1 sep acc s)
  then show ?case by (subst split_acc.simps) auto
qed

lemma files_stream_write_lines:
  "\<exists>added. files (stream_write_lines e file lines w) file = files w file @ added
     \<and> (lines \<noteq> [] \<longrightarrow> added \<noteq> [])"
proof (induction lines arbitrary: w)
  case Nil
  show ?case by simp
next
  case (Cons line lines)
  let ?w2 = "w\<lparr> clock := clock w + 1,
    files := (files w)(file := files w file @ ''['' @ timestamp_at e (clock w) @ ''] '' @ line @ EOL e) \<rparr>"
  from Cons.IH [of ?w2] obtain added where
    "files (stream_write_lines e file lines ?w2) file = files ?w2 file @ added"
    by blast
  then have "files (stream_write_lines e file (line # lines) w) file
    = files w file @ ((''['' @ timestamp_at e (clock w) @ ''] '' @ line @ EOL e) @ added)"
    by (simp add: getCurrentTimestamp_def Let_def)
  then show ?case by blast
qed

lemma createLogger_first_writes_nothing:
  assumes "configurations w = []" and "createLogger e parent options w = Inr (m, w')"
  shows "files w' = files w \<and> console w' = console w"
  using assms by (auto simp: createLogger_def Let_def split: option.splits)

lemma createLogger_second_writes_header:
  assumes one: "length (configurations w) = 1"
    and created: "createLogger e parent options w = Inr (m, w')"
    and on: "write_flag (configuration m)" and no_override: "\<not> isNolog e"
    and dir_ok: "\<not> mkdirp_error e (path_dirname e (logfile (configuration m)))"
  shows "\<exists>header. header \<noteq> []
    \<and> files w' (logfile (configuration m)) = files w (logfile (configuration m)) @ header"
proof -
  from created one have w': "files w' = files (writeHeaderToFile e m w)"
    by (auto simp: createLogger_def Let_def split: option.splits)
  let ?w1 = "w\<lparr> clock := clock w + 1 \<rparr>"
  let ?message = "EOL e @ ''LOG STARTED ('' @ timestamp_at e (clock w) @ '')'' @ EOL e
    @ repeat [CHR 0xE2, CHR 0x96, CHR 0x94] 80"
  have h: "writeHeaderToFile e m w
    = stream_write_lines e (logfile (configuration m)) (split (EOL e) ?message) ?w1"
    using on no_override dir_ok
    by (simp add: writeHeaderToFile_def writeMessageToFile_def getCurrentTimestamp_def Let_def)
  have "split (EOL e) ?message \<noteq> []" by (simp add: split_def split_acc_not_Nil)
  with files_stream_write_lines [of e "logfile (configuration m)" "split (EOL e) ?message" ?w1]
  obtain added where "added \<noteq> []"
    "files (stream_write_lines e (logfile (configuration m)) (split (EOL e) ?message) ?w1)
       (logfile (configuration m)) = files ?w1 (logfile (configuration m)) @ added"
    by blast
  with h w' show ?thesis by auto
qed

text \<open>
  C1. The claim: one header block is appended to the logfile at the very first creation
  of a logger in the process, before any message line, and once per process. The code
  tests the size of the registry before it adds the new configuration, so the first
  creation finds the size 0 and writes nothing. In the example process the first creation
  (with \<open>write\<close> on and no override) leaves the logfile empty, the second creation by
  the same file appends a header, and the third appends a second one.
\<close>

theorem first_initialization_writes_no_header:
  "\<not> isl (createLogger example_env (Some ''/app/main.js'') write_options initial_world)
   \<and> write_flag (configuration (fst first_init))
   \<and> \<not> isNolog example_env
   \<and> files (snd first_init) (logfile (configuration (fst first_init))) = []
   \<and> \<not> isl (createLogger example_env (Some ''/app/main.js'') write_options (snd first_init))
   \<and> files (snd second_init) (logfile (configuration (fst first_init))) \<noteq> []
   \<and> \<not> isl (createLogger example_env (Some ''/app/main.js'') write_options (snd second_init))
   \<and> files (snd third_init) (logfile (configuration (fst first_init)))
       = files (snd second_init) (logfile (configuration (fst first_init)))
         @ files (snd second_init) (logfile (configuration (fst first_init)))"
  by code_simp

theorem first_initialization_writes_no_header_witness:
  "files (snd first_init) (logfile (configuration (fst first_init))) = []
   \<and> files (snd second_init) (logfile (configuration (fst first_init))) \<noteq> []"
  using first_initialization_writes_no_header by simp

section \<open>The thread of a message\<close>

text \<open>
  C2. The thread of every message is the index of the namespace of its logger in the list
  of the registered namespaces, modulo 2 (\<open>indexOf\<close> gives the first index, and \<open>-1\<close> for
  a namespace that is not registered). When the registered namespaces are \<open>N1\<close>, \<open>N2\<close>,
  \<open>N1\<close>, \<open>N2\<close> in this order and \<open>N1 \<noteq> N2\<close>, the messages of loggers that carry these
  four namespaces have the threads 0, 1, 0, 1, both once all four are registered and when
  each logs at the moment at which its own namespace is the last one registered.
\<close>

theorem thread_is_registration_index_mod_2:
  "thread (LoggerMessage_constructor e level message m w)
     = indexOf (namespacesList w) (namespace (configuration m)) mod 2
   \<and> (\<forall>k. k < length (namespacesList w)
          \<and> namespacesList w ! k = namespace (configuration m)
          \<and> (\<forall>j<k. namespacesList w ! j \<noteq> namespace (configuration m))
        \<longrightarrow> thread (LoggerMessage_constructor e level message m w) = int k mod 2)
   \<and> (N1 \<noteq> N2
        \<and> namespacesList w1 = [N1] \<and> namespacesList w2 = [N1, N2]
        \<and> namespacesList w3 = [N1, N2, N1] \<and> namespacesList w4 = [N1, N2, N1, N2]
        \<and> namespace (configuration m1) = N1 \<and> namespace (configuration m2) = N2
        \<and> namespace (configuration m3) = N1 \<and> namespace (configuration m4) = N2
      \<longrightarrow> [thread (LoggerMessage_constructor e level message m1 w4),
           thread (LoggerMessage_constructor e level message m2 w4),
           thread (LoggerMessage_constructor e level message m3 w4),
           thread (LoggerMessage_constructor e level message m4 w4)] = [0, 1, 0, 1]
        \<and> [thread (LoggerMessage_constructor e level message m1 w1),
           thread (LoggerMessage_constructor e level message m2 w2),
           thread (LoggerMessage_constructor e level message m3 w3),
           thread (LoggerMessage_constructor e level message m4 w4)] = [0, 1, 0, 1])"
proof -
  have first: "thread (LoggerMessage_constructor e level message m w)
     = indexOf (namespacesList w) (namespace (configuration m)) mod 2"
    by (simp add: thread_eq and_one_mod_2)
  have second: "\<forall>k. k < length (namespacesList w)
          \<and> namespacesList w ! k = namespace (configuration m)
          \<and> (\<forall>j<k. namespacesList w ! j \<noteq> namespace (configuration m))
        \<longrightarrow> thread (LoggerMessage_constructor e level message m w) = int k mod 2"
  proof (intro allI impI)
    fix k
    assume "k < length (namespacesList w)
          \<and> namespacesList w ! k = namespace (configuration m)
          \<and> (\<forall>j<k. namespacesList w ! j \<noteq> namespace (configuration m))"
    then have "indexOf (namespacesList w) (namespace (configuration m)) = int k"
      using indexOf_from_first [of k "namespacesList w" "namespace (configuration m)" 0]
      by (simp add: indexOf_def)
    then show "thread (LoggerMessage_constructor e level message m w) = int k mod 2"
      by (simp add: thread_eq and_one_mod_2)
  qed
  have third: "N1 \<noteq> N2
        \<and> namespacesList w1 = [N1] \<and> namespacesList w2 = [N1, N2]
        \<and> namespacesList w3 = [N1, N2, N1] \<and> namespacesList w4 = [N1, N2, N1, N2]
        \<and> namespace (configuration m1) = N1 \<and> namespace (configuration m2) = N2
        \<and> namespace (configuration m3) = N1 \<and> namespace (configuration m4) = N2
      \<longrightarrow> [thread (LoggerMessage_constructor e level message m1 w4),
           thread (LoggerMessage_constructor e level message m2 w4),
           thread (LoggerMessage_constructor e level message m3 w4),
           thread (LoggerMessage_constructor e level message m4 w4)] = [0, 1, 0, 1]
        \<and> [thread (LoggerMessage_constructor e level message m1 w1),
           thread (LoggerMessage_constructor e level message m2 w2),
           thread (LoggerMessage_constructor e level message m3 w3),
           thread (LoggerMessage_constructor e level message m4 w4)] = [0, 1, 0, 1]"
    by (simp add: thread_eq indexOf_def)
  from first second third show ?thesis by blast
qed

theorem thread_is_registration_index_mod_2_witness:
  "namespacesList (snd reg4) ! 1 = namespace (configuration (fst reg2))
   \<and> thread (LoggerMessage_constructor example_env Log [JString ''hello''] (fst reg2) (snd reg4))
       = 1
   \<and> namespace (configuration (fst reg1)) \<noteq> namespace (configuration (fst reg2))
   \<and> namespacesList (snd reg4)
       = [namespace (configuration (fst reg1)), namespace (configuration (fst reg2)),
          namespace (configuration (fst reg1)), namespace (configuration (fst reg2))]
   \<and> namespace (configuration (fst reg3)) = namespace (configuration (fst reg1))
   \<and> namespace (configuration (fst reg4)) = namespace (configuration (fst reg2))
   \<and> [thread (LoggerMessage_constructor example_env Log [JString ''hello''] (fst reg1) (snd reg4)),
       thread (LoggerMessage_constructor example_env Log [JString ''hello''] (fst reg2) (snd reg4)),
       thread (LoggerMessage_constructor example_env Log [JString ''hello''] (fst reg3) (snd reg4)),
       thread (LoggerMessage_constructor example_env Log [JString ''hello''] (fst reg4) (snd reg4))]
      = [0, 1, 0, 1]
   \<and> [thread (LoggerMessage_constructor example_env Log [JString ''hello''] (fst reg1) (snd reg1)),
       thread (LoggerMessage_constructor example_env Log [JString ''hello''] (fst reg2) (snd reg2)),
       thread (LoggerMessage_constructor example_env Log [JString ''hello''] (fst reg3) (snd reg3)),
       thread (LoggerMessage_constructor example_env Log [JString ''hello''] (fst reg4) (snd reg4))]
      = [0, 1, 0, 1]"
proof -
  have neq: "namespace (configuration (fst reg1)) \<noteq> namespace (configuration (fst reg2))"
    by code_simp
  have l1: "namespacesList (snd reg1) = [namespace (configuration (fst reg1))]"
    by code_simp
  have l2: "namespacesList (snd reg2)
       = [namespace (configuration (fst reg1)), namespace (configuration (fst reg2))]"
    by code_simp
  have l3: "namespacesList (snd reg3)
       = [namespace (configuration (fst reg1)), namespace (configuration (fst reg2)),
          namespace (configuration (fst reg1))]"
    by code_simp
  have l4: "namespacesList (snd reg4)
       = [namespace (configuration (fst reg1)), namespace (configuration (fst reg2)),
          namespace (configuration (fst reg1)), namespace (configuration (fst reg2))]"
    by code_simp
  have n3: "namespace (configuration (fst reg3)) = namespace (configuration (fst reg1))"
    by code_simp
  have n4: "namespace (configuration (fst reg4)) = namespace (configuration (fst reg2))"
    by code_simp
  have k: "(1::nat) < length (namespacesList (snd reg4))"
    "namespacesList (snd reg4) ! 1 = namespace (configuration (fst reg2))"
    "\<forall>j<(1::nat). namespacesList (snd reg4) ! j \<noteq> namespace (configuration (fst reg2))"
    by code_simp+
  note T = thread_is_registration_index_mod_2
    [where e = example_env and level = Log and message = "[JString ''hello'']"
       and m = "fst reg2" and w = "snd reg4"
       and ?m1.0 = "fst reg1" and ?w1.0 = "snd reg1"
       and ?m2.0 = "fst reg2" and ?w2.0 = "snd reg2"
       and ?m3.0 = "fst reg3" and ?w3.0 = "snd reg3"
       and ?m4.0 = "fst reg4" and ?w4.0 = "snd reg4"
       and ?N1.0 = "namespace (configuration (fst reg1))"
       and ?N2.0 = "namespace (configuration (fst reg2))"]
  from T k have "thread (LoggerMessage_constructor example_env Log [JString ''hello'']
      (fst reg2) (snd reg4)) = 1"
    by (metis int_ops(2) one_mod_two_eq_one)
  moreover from T neq l1 l2 l3 l4 n3 n4
  have "[thread (LoggerMessage_constructor example_env Log [JString ''hello''] (fst reg1) (snd reg4)),
       thread (LoggerMessage_constructor example_env Log [JString ''hello''] (fst reg2) (snd reg4)),
       thread (LoggerMessage_constructor example_env Log [JString ''hello''] (fst reg3) (snd reg4)),
       thread (LoggerMessage_constructor example_env Log [JString ''hello''] (fst reg4) (snd reg4))]
      = [0, 1, 0, 1]
   \<and> [thread (LoggerMessage_constructor example_env Log [JString ''hello''] (fst reg1) (snd reg1)),
       thread (LoggerMessage_constructor example_env Log [JString ''hello''] (fst reg2) (snd reg2)),
       thread (LoggerMessage_constructor example_env Log [JString ''hello''] (fst reg3) (snd reg3)),
       thread (LoggerMessage_constructor example_env Log [JString ''hello''] (fst reg4) (snd reg4))]
      = [0, 1, 0, 1]"
    by blast
  ultimately show ?thesis using k(2) neq l4 n3 n4 by simp
qed

text \<open>
  C9. Two loggers whose configurations carry the same namespace give their messages the
  same thread. When the namespace is a registered one this also holds when namespaces have
  been added to the registry between the two messages (\<open>createLogger\<close> adds them at the
  end): the thread is the position of the first occurrence of the namespace in the list
  of the registered namespaces, modulo 2. In the example the second file of the dependency
  stands at position 1 of the registry and its messages carry the thread 0.
\<close>

theorem same_namespace_same_thread:
  assumes same: "namespace (configuration m1) = namespace (configuration m2)"
  shows "thread (LoggerMessage_constructor e level1 message1 m1 w)
           = thread (LoggerMessage_constructor e level2 message2 m2 w)
       \<and> (namespace (configuration m1) \<in> set (namespacesList w)
            \<and> namespacesList w' = namespacesList w @ added
          \<longrightarrow> thread (LoggerMessage_constructor e level1 message1 m1 w)
                = thread (LoggerMessage_constructor e level2 message2 m2 w')
              \<and> (\<exists>k<length (namespacesList w).
                    namespacesList w ! k = namespace (configuration m1)
                    \<and> (\<forall>j<k. namespacesList w ! j \<noteq> namespace (configuration m1))
                    \<and> thread (LoggerMessage_constructor e level1 message1 m1 w) = int k mod 2
                    \<and> thread (LoggerMessage_constructor e level2 message2 m2 w')
                        = int k mod 2))"
proof
  show "thread (LoggerMessage_constructor e level1 message1 m1 w)
           = thread (LoggerMessage_constructor e level2 message2 m2 w)"
    using same by (simp add: thread_eq)
next
  show "namespace (configuration m1) \<in> set (namespacesList w)
            \<and> namespacesList w' = namespacesList w @ added
          \<longrightarrow> thread (LoggerMessage_constructor e level1 message1 m1 w)
                = thread (LoggerMessage_constructor e level2 message2 m2 w')
              \<and> (\<exists>k<length (namespacesList w).
                    namespacesList w ! k = namespace (configuration m1)
                    \<and> (\<forall>j<k. namespacesList w ! j \<noteq> namespace (configuration m1))
                    \<and> thread (LoggerMessage_constructor e level1 message1 m1 w) = int k mod 2
                    \<and> thread (LoggerMessage_constructor e level2 message2 m2 w')
                        = int k mod 2)"
  proof
    assume a: "namespace (configuration m1) \<in> set (namespacesList w)
            \<and> namespacesList w' = namespacesList w @ added"
    then have registered: "namespace (configuration m1) \<in> set (namespacesList w)"
      and later: "namespacesList w' = namespacesList w @ added"
      by simp_all
    from first_occurrence_exists [OF registered] obtain k where
      k: "k < length (namespacesList w)" "namespacesList w ! k = namespace (configuration m1)"
         "\<forall>j<k. namespacesList w ! j \<noteq> namespace (configuration m1)"
      by blast
    have i: "indexOf (namespacesList w) (namespace (configuration m1)) = int k"
      using indexOf_from_first [OF k, of 0] by (simp add: indexOf_def)
    have i': "indexOf (namespacesList w') (namespace (configuration m2)) = int k"
      using i same later indexOf_from_append [OF registered, of added 0]
      by (simp add: indexOf_def)
    have t: "thread (LoggerMessage_constructor e level1 message1 m1 w) = int k mod 2"
      by (simp add: thread_eq and_one_mod_2 i)
    have t': "thread (LoggerMessage_constructor e level2 message2 m2 w') = int k mod 2"
      by (simp add: thread_eq and_one_mod_2 i')
    from k t t' show "thread (LoggerMessage_constructor e level1 message1 m1 w)
                = thread (LoggerMessage_constructor e level2 message2 m2 w')
              \<and> (\<exists>k<length (namespacesList w).
                    namespacesList w ! k = namespace (configuration m1)
                    \<and> (\<forall>j<k. namespacesList w ! j \<noteq> namespace (configuration m1))
                    \<and> thread (LoggerMessage_constructor e level1 message1 m1 w) = int k mod 2
                    \<and> thread (LoggerMessage_constructor e level2 message2 m2 w')
                        = int k mod 2)"
      by auto
  qed
qed

theorem same_namespace_same_thread_witness:
  "namespace (configuration (fst reg1)) = namespace (configuration (fst dep2))
   \<and> namespace (configuration (fst reg1)) \<in> set (namespacesList (snd reg1))
   \<and> namespacesList (snd dep2) = namespacesList (snd reg1) @ [''my-app|dep'']
   \<and> namespacesList (snd dep2) ! 1 = namespace (configuration (fst dep2))
   \<and> thread (LoggerMessage_constructor example_env Log [JString ''a''] (fst reg1) (snd reg1))
       = thread (LoggerMessage_constructor example_env Warn [JString ''b''] (fst dep2) (snd dep2))
   \<and> thread (LoggerMessage_constructor example_env Warn [JString ''b''] (fst dep2) (snd dep2)) = 0"
proof -
  have same: "namespace (configuration (fst reg1)) = namespace (configuration (fst dep2))"
    by code_simp
  have registered: "namespace (configuration (fst reg1)) \<in> set (namespacesList (snd reg1))"
    by code_simp
  have later: "namespacesList (snd dep2) = namespacesList (snd reg1) @ [''my-app|dep'']"
    by code_simp
  have position: "namespacesList (snd dep2) ! 1 = namespace (configuration (fst dep2))"
    by code_simp
  have zero: "thread (LoggerMessage_constructor example_env Warn [JString ''b'']
      (fst dep2) (snd dep2)) = 0"
    by code_simp
  from same_namespace_same_thread [OF same, where e = example_env and ?level1.0 = Log
      and ?message1.0 = "[JString ''a'']" and ?level2.0 = Warn and ?message2.0 = "[JString ''b'']"
      and w = "snd reg1" and w' = "snd dep2" and added = "[''my-app|dep'']"]
  show ?thesis using same registered later position zero by simp
qed

text \<open>
  C10. A logger whose namespace occurs nowhere in the list of the registered namespaces
  gives every message the thread 1. In the example a logger is created (thread 0), then
  \<open>setConfiguration\<close> gives it the namespace \<open>custom\<close>, which the registry does not
  hold: the thread becomes 1.
\<close>

theorem unregistered_namespace_thread_1:
  "namespace (configuration m) \<notin> set (namespacesList w) \<Longrightarrow>
   thread (LoggerMessage_constructor e level message m w) = 1"
  by (simp add: thread_eq indexOf_def indexOf_from_absent)

theorem unregistered_namespace_thread_1_witness:
  "namespace (configuration (setConfiguration custom_namespace (fst reg1)))
     \<notin> set (namespacesList (snd reg1))
   \<and> thread (LoggerMessage_constructor example_env Log [JString ''hello'']
        (setConfiguration custom_namespace (fst reg1)) (snd reg1)) = 1
   \<and> thread (LoggerMessage_constructor example_env Log [JString ''hello''] (fst reg1) (snd reg1)) = 0"
proof -
  have absent: "namespace (configuration (setConfiguration custom_namespace (fst reg1)))
     \<notin> set (namespacesList (snd reg1))"
    by code_simp
  have before: "thread (LoggerMessage_constructor example_env Log [JString ''hello'']
      (fst reg1) (snd reg1)) = 0"
    by code_simp
  from unregistered_namespace_thread_1 [OF absent, of example_env Log "[JString ''hello'']"]
  show ?thesis using absent before by simp
qed

section \<open>The configuration of a logger\<close>

text \<open>
  C3, counterexample. The claim: the configuration of a new logger is the merge of the options onto
  the defaults, the caller's value winning for every property, the namespace included. A
  namespace the caller supplies is overwritten: in the example the caller passes
  \<open>custom\<close> and the configuration carries the namespace derived from the file.
\<close>

theorem supplied_namespace_counterexample:
  "\<not> isl (createLogger example_env (Some ''/app/main.js'') custom_namespace initial_world)
   \<and> configuration (fst custom_init) \<noteq> spec_configuration example_env custom_namespace
   \<and> namespace (configuration (fst custom_init)) = ''my-app|'' @ ellipsis @ ''/main.js''
   \<and> namespace (spec_configuration example_env custom_namespace) = ''custom''"
  by code_simp

text \<open>
  C3, as amended. \<open>write\<close>, \<open>timestamp\<close> and \<open>logfile\<close> of the new configuration are those
  of the merge of the options onto the defaults, the caller's values winning; the namespace
  is the one derived from the requiring file, and a namespace among the options changes
  nothing in what \<open>createLogger\<close> returns.
\<close>

theorem createLogger_configuration:
  assumes "createLogger e parent options w = Inr (m, w')"
  shows "write_flag (configuration m) = write_flag (spec_configuration e options)
       \<and> timestamp (configuration m) = timestamp (spec_configuration e options)
       \<and> logfile (configuration m) = logfile (spec_configuration e options)
       \<and> (\<forall>found. readPkgUp_sync e (requiringModuleFilePath e parent) = Some found
            \<longrightarrow> namespace (configuration m)
                 = spec_namespace e (requiringModuleFilePath e parent) found)
       \<and> createLogger e parent (options\<lparr> opt_namespace := supplied \<rparr>) w = Inr (m, w')"
proof -
  from createLogger_Inr [OF assms] obtain found where
    found: "readPkgUp_sync e (requiringModuleFilePath e parent) = Some found"
    and cfg: "configuration m = (defaultsDeep options (defaultLoggerOptions e))
         \<lparr> namespace := spec_namespace e (requiringModuleFilePath e parent) found \<rparr>"
    by blast
  have fields: "write_flag (configuration m) = write_flag (spec_configuration e options)
       \<and> timestamp (configuration m) = timestamp (spec_configuration e options)
       \<and> logfile (configuration m) = logfile (spec_configuration e options)"
    by (simp add: cfg defaultsDeep_def defaultLoggerOptions_def spec_configuration_def
        split: option.splits)
  have ns: "\<forall>found'. readPkgUp_sync e (requiringModuleFilePath e parent) = Some found'
            \<longrightarrow> namespace (configuration m)
                 = spec_namespace e (requiringModuleFilePath e parent) found'"
    using found cfg by simp
  have "createLogger e parent (options\<lparr> opt_namespace := supplied \<rparr>) w
          = createLogger e parent options w"
    by (simp add: createLogger_def Let_def defaultsDeep_def split: option.splits)
  with assms fields ns show ?thesis by simp
qed

theorem createLogger_configuration_witness:
  "createLogger example_env (Some ''/app/main.js'') custom_namespace initial_world
     = Inr (fst custom_init, snd custom_init)
   \<and> write_flag (configuration (fst custom_init)) = write_flag (spec_configuration example_env custom_namespace)
   \<and> timestamp (configuration (fst custom_init)) = timestamp (spec_configuration example_env custom_namespace)
   \<and> logfile (configuration (fst custom_init)) = logfile (spec_configuration example_env custom_namespace)
   \<and> namespace (configuration (fst custom_init)) = ''my-app|'' @ ellipsis @ ''/main.js''
   \<and> createLogger example_env (Some ''/app/main.js'') (custom_namespace\<lparr> opt_namespace := None \<rparr>)
        initial_world = Inr (fst custom_init, snd custom_init)"
proof -
  have created: "createLogger example_env (Some ''/app/main.js'') custom_namespace initial_world
     = Inr (fst custom_init, snd custom_init)"
    unfolding custom_init_def by (rule Inr_projr) code_simp
  have found: "readPkgUp_sync example_env (requiringModuleFilePath example_env (Some ''/app/main.js''))
     = Some \<lparr> pkg_path = ''/app/package.json'', pkg_name = ''my-app'' \<rparr>"
    by code_simp
  have ns: "spec_namespace example_env (requiringModuleFilePath example_env (Some ''/app/main.js''))
      \<lparr> pkg_path = ''/app/package.json'', pkg_name = ''my-app'' \<rparr>
     = ''my-app|'' @ ellipsis @ ''/main.js''"
    by code_simp
  from createLogger_configuration [OF created, of None] found ns
  show ?thesis using created by simp
qed

text \<open>
  C5. When the requiring file has a manifest, \<open>createLogger\<close> succeeds and the namespace
  is \<open>appName|\<dots>/baseName\<close> of the file if the directory of that manifest is the root
  directory of the application, and \<open>appName|packageName\<close> otherwise, whatever the options
  are. Without a manifest \<open>createLogger\<close> fails.
\<close>

theorem createLogger_namespace:
  "(readPkgUp_sync e (requiringModuleFilePath e parent) = None
      \<longrightarrow> createLogger e parent options w = Inl TypeError)
   \<and> (\<forall>found. readPkgUp_sync e (requiringModuleFilePath e parent) = Some found
      \<longrightarrow> (\<exists>m w'. createLogger e parent options w = Inr (m, w')
            \<and> namespace (configuration m)
               = (if path_dirname e (pkg_path found) = toplevelModuleDirectory e
                  then toplevelModulePackageName e @ ''|'' @ ellipsis @ ''/''
                       @ path_basename e (requiringModuleFilePath e parent)
                  else toplevelModulePackageName e @ ''|'' @ pkg_name found)))"
proof (intro conjI allI impI)
  assume "readPkgUp_sync e (requiringModuleFilePath e parent) = None"
  then show "createLogger e parent options w = Inl TypeError" by (rule createLogger_None)
next
  fix found
  assume "readPkgUp_sync e (requiringModuleFilePath e parent) = Some found"
  from createLogger_Some [OF this, of options w]
  show "\<exists>m w'. createLogger e parent options w = Inr (m, w')
            \<and> namespace (configuration m)
               = (if path_dirname e (pkg_path found) = toplevelModuleDirectory e
                  then toplevelModulePackageName e @ ''|'' @ ellipsis @ ''/''
                       @ path_basename e (requiringModuleFilePath e parent)
                  else toplevelModulePackageName e @ ''|'' @ pkg_name found)"
    by (auto simp: spec_namespace_def spec_isLocal_def)
qed

theorem createLogger_namespace_witness:
  "readPkgUp_sync example_env (requiringModuleFilePath example_env (Some ''/app/lib/main.js''))
     = Some \<lparr> pkg_path = ''/app/package.json'', pkg_name = ''my-app'' \<rparr>
   \<and> namespace (configuration (fst local_init)) = ''my-app|'' @ ellipsis @ ''/main.js''
   \<and> readPkgUp_sync example_env
        (requiringModuleFilePath example_env (Some ''/app/node_modules/dep/index.js''))
     = Some \<lparr> pkg_path = ''/app/node_modules/dep/package.json'', pkg_name = ''dep'' \<rparr>
   \<and> namespace (configuration (fst reg1)) = ''my-app|dep''
   \<and> readPkgUp_sync example_env (requiringModuleFilePath example_env (Some ''/elsewhere/x.js''))
     = None
   \<and> createLogger example_env (Some ''/elsewhere/x.js'') no_options initial_world = Inl TypeError"
proof -
  have l: "readPkgUp_sync example_env
      (requiringModuleFilePath example_env (Some ''/app/lib/main.js''))
     = Some \<lparr> pkg_path = ''/app/package.json'', pkg_name = ''my-app'' \<rparr>"
    by code_simp
  have t: "readPkgUp_sync example_env
        (requiringModuleFilePath example_env (Some ''/app/node_modules/dep/index.js''))
     = Some \<lparr> pkg_path = ''/app/node_modules/dep/package.json'', pkg_name = ''dep'' \<rparr>"
    by code_simp
  have n: "readPkgUp_sync example_env
      (requiringModuleFilePath example_env (Some ''/elsewhere/x.js'')) = None"
    by code_simp
  have dirs: "path_dirname example_env ''/app/package.json'' = toplevelModuleDirectory example_env"
    "path_dirname example_env ''/app/node_modules/dep/package.json''
       \<noteq> toplevelModuleDirectory example_env"
    "toplevelModulePackageName example_env = ''my-app''"
    "path_basename example_env (requiringModuleFilePath example_env (Some ''/app/lib/main.js''))
       = ''main.js''"
    by code_simp+
  note c1 = createLogger_namespace
    [of example_env "Some ''/app/lib/main.js''" no_options initial_world]
  note c2 = createLogger_namespace
    [of example_env "Some ''/app/node_modules/dep/index.js''" no_options initial_world]
  note c3 = createLogger_namespace
    [of example_env "Some ''/elsewhere/x.js''" no_options initial_world]
  from c1 l dirs have "namespace (configuration (fst local_init)) = ''my-app|'' @ ellipsis @ ''/main.js''"
    by (auto simp: local_init_def)
  moreover from c2 t dirs have "namespace (configuration (fst reg1)) = ''my-app|dep''"
    by (auto simp: reg1_def)
  moreover from c3 n
  have "createLogger example_env (Some ''/elsewhere/x.js'') no_options initial_world = Inl TypeError"
    by simp
  ultimately show ?thesis using l t n by simp
qed

text \<open>
  C6. After \<open>setConfiguration\<close> with an options object, \<open>getConfiguration\<close> returns, for
  every property, the value of the options when they hold one and the value of the
  previous configuration otherwise.
\<close>

theorem setConfiguration_getConfiguration:
  "write_flag (getConfiguration (setConfiguration options m))
     = (case opt_write options of Some v \<Rightarrow> v | None \<Rightarrow> write_flag (getConfiguration m))
   \<and> timestamp (getConfiguration (setConfiguration options m))
     = (case opt_timestamp options of Some v \<Rightarrow> v | None \<Rightarrow> timestamp (getConfiguration m))
   \<and> namespace (getConfiguration (setConfiguration options m))
     = (case opt_namespace options of Some v \<Rightarrow> v | None \<Rightarrow> namespace (getConfiguration m))
   \<and> logfile (getConfiguration (setConfiguration options m))
     = (case opt_logfile options of Some v \<Rightarrow> v | None \<Rightarrow> logfile (getConfiguration m))"
  by (simp add: getConfiguration_def setConfiguration_def defaultsDeep_def split: option.splits)

theorem setConfiguration_getConfiguration_witness:
  "write_flag (getConfiguration (setConfiguration write_options (fst reg1)))
   \<and> timestamp (getConfiguration (setConfiguration write_options (fst reg1)))
   \<and> namespace (getConfiguration (setConfiguration custom_namespace (fst reg1))) = ''custom''
   \<and> logfile (getConfiguration (setConfiguration custom_namespace (fst reg1))) = ''/logs/my-app.log''"
proof -
  have given: "opt_write write_options = Some True" "opt_timestamp write_options = None"
    "opt_namespace custom_namespace = Some ''custom''" "opt_logfile custom_namespace = None"
    "timestamp (getConfiguration (fst reg1))"
    "logfile (getConfiguration (fst reg1)) = ''/logs/my-app.log''"
    by code_simp+
  from setConfiguration_getConfiguration [of write_options "fst reg1"]
    setConfiguration_getConfiguration [of custom_namespace "fst reg1"]
  show ?thesis by (simp add: given)
qed

section \<open>Title and body\<close>

text \<open>
  Where the code does what the specification says: with more than one element and a truthy
  first one, and with a single string.
\<close>

lemma title_body_eq:
  "title (LoggerMessage_constructor e level message m w)
     = (let formatted = format_entities e (indent e (namespace (configuration m))) [] message;
            title1 = (if length formatted > 1 then hd formatted else JUndefined);
            body1 = Array_join '' '' (if length formatted > 1 then tl formatted else formatted)
        in if \<not> truthy title1 then JString body1 else title1)"
  "body (LoggerMessage_constructor e level message m w)
     = (let formatted = format_entities e (indent e (namespace (configuration m))) [] message;
            title1 = (if length formatted > 1 then hd formatted else JUndefined);
            body1 = Array_join '' '' (if length formatted > 1 then tl formatted else formatted);
            title2 = (if \<not> truthy title1 then JString body1 else title1)
        in if title2 = JString body1 then [] else body1)"
  by (simp_all add: LoggerMessage_constructor_def Let_def)

lemma title_and_body_as_specified:
  assumes "(length (format_entities e (indent e (namespace (configuration m))) [] message) > 1
      \<and> truthy (hd (format_entities e (indent e (namespace (configuration m))) [] message)))
    \<or> (\<exists>s. message = [JString s])"
  shows "(title (LoggerMessage_constructor e level message m w),
          body (LoggerMessage_constructor e level message m w))
     = spec_title_body (format_entities e (indent e (namespace (configuration m))) [] message)"
  using assms
  by (auto simp: title_body_eq Let_def spec_title_body_def Array_join_def)

text \<open>
  C4. The claim: with more than one element the first is the title and the others, joined
  with single spaces, are the body. The code takes the first element as the title and then
  tests \<open>!this.title\<close> to see whether there is a title at all, so a first element that is
  falsy is dropped: \<open>log(0, "x")\<close> and \<open>log("", "x")\<close> have the title \<open>x\<close> and an empty
  body, where the claim gives the title \<open>0\<close> (or the empty string) and the body \<open>x\<close>. When
  an array follows, as in \<open>log(0, [1])\<close>, the loop has turned the first element into the
  string \<open>0\<close>, and it is kept as the title.
\<close>

theorem falsy_first_argument_is_dropped:
  "title (LoggerMessage_constructor example_env Log [JNumber 0, JString ''x''] (fst reg1) (snd reg1))
     = JString ''x''
   \<and> body (LoggerMessage_constructor example_env Log [JNumber 0, JString ''x''] (fst reg1) (snd reg1))
     = []
   \<and> format_entities example_env (indent example_env (namespace (configuration (fst reg1)))) []
        [JNumber 0, JString ''x''] = [JNumber 0, JString ''x'']
   \<and> spec_title_body [JNumber 0, JString ''x''] = (JNumber 0, ''x'')
   \<and> title (LoggerMessage_constructor example_env Log [JString [], JString ''x''] (fst reg1) (snd reg1))
     = JString ''x''
   \<and> body (LoggerMessage_constructor example_env Log [JString [], JString ''x''] (fst reg1) (snd reg1))
     = []
   \<and> spec_title_body [JString [], JString ''x''] = (JString [], ''x'')
   \<and> title (LoggerMessage_constructor example_env Log [JNumber 0, JArray [JNumber 1]] (fst reg1) (snd reg1))
     = JString ''0''"
  by code_simp

theorem falsy_first_argument_is_dropped_witness:
  "title (LoggerMessage_constructor example_env Log [JNumber 0, JString ''x''] (fst reg1) (snd reg1))
     \<noteq> JNumber 0
   \<and> body (LoggerMessage_constructor example_env Log [JNumber 0, JString ''x''] (fst reg1) (snd reg1))
     \<noteq> ''x''"
  using falsy_first_argument_is_dropped by simp

section \<open>What reaches the sinks\<close>

text \<open>
  C7. While the \<open>write\<close> flag of the configuration is off, or the no-log override is on,
  a sequence of calls of log methods leaves every file as it is, and a request to write is
  dropped without any effect (no error is reported). In the example the same calls do
  change the logfile once the flag is on and the override is off.
\<close>

theorem no_write_when_gated:
  assumes "\<not> write_flag (configuration m) \<or> isNolog e"
  shows "files (log_calls e calls m w) = files w
       \<and> (\<forall>message. writeMessageToFile e message m w = w)"
proof -
  have "files (log_calls e calls m w) = files w"
  proof (induction calls arbitrary: w)
    case Nil
    show ?case by simp
  next
    case (Cons c cs)
    show ?case by (simp add: Cons.IH files_log_method_gated [OF assms])
  qed
  with assms show ?thesis by (simp add: writeMessageToFile_gated)
qed

theorem no_write_when_gated_witness:
  "\<not> write_flag (configuration (fst reg1))
   \<and> files (log_calls example_env two_calls (fst reg1) (snd reg1)) = files (snd reg1)
   \<and> write_flag (configuration (fst first_init))
   \<and> isNolog (example_env\<lparr> isNolog := True \<rparr>)
   \<and> files (log_calls (example_env\<lparr> isNolog := True \<rparr>) two_calls (fst first_init) (snd first_init))
       = files (snd first_init)
   \<and> files (log_calls example_env two_calls (fst first_init) (snd first_init)) ''/logs/my-app.log''
       \<noteq> files (snd first_init) ''/logs/my-app.log''"
proof -
  have off: "\<not> write_flag (configuration (fst reg1))" by code_simp
  have on: "write_flag (configuration (fst first_init))" by code_simp
  have nolog: "isNolog (example_env\<lparr> isNolog := True \<rparr>)" by simp
  have written: "files (log_calls example_env two_calls (fst first_init) (snd first_init))
       ''/logs/my-app.log'' \<noteq> files (snd first_init) ''/logs/my-app.log''"
    by code_simp
  from off have g1: "\<not> write_flag (configuration (fst reg1)) \<or> isNolog example_env" by simp
  from nolog have g2: "\<not> write_flag (configuration (fst first_init))
      \<or> isNolog (example_env\<lparr> isNolog := True \<rparr>)" by simp
  from no_write_when_gated [OF g1, of two_calls "snd reg1"]
    no_write_when_gated [OF g2, of two_calls "snd first_init"]
  show ?thesis using off on nolog written by simp
qed

text \<open>
  C8. A log method called without arguments changes nothing: no console output, no file
  write.
\<close>

theorem empty_call_no_op: "log_method level e [] m w = w"
  by (cases level)
    (simp_all add: logger_debug_def logger_log_def logger_info_def logger_warn_def
       logger_error_def printToAny_def printToTty_def printToBrowserConsole_def)

theorem empty_call_no_op_witness:
  "log_method Warn example_env [] (fst first_init) (snd first_init) = snd first_init
   \<and> log_method Debug (example_env\<lparr> isDebug := True \<rparr>) [] (fst first_init) (snd first_init)
       = snd first_init"
  using empty_call_no_op [of Warn example_env "fst first_init" "snd first_init"]
    empty_call_no_op [of Debug "example_env\<lparr> isDebug := True \<rparr>" "fst first_init" "snd first_init"]
  by simp

end
